theory Spec2Isabelle
  imports Complex_Main "HOL-Library.Word" "HOL-Library.Sublist"
begin

section \<open>JavaScript values\<close>

text \<open>
  A JavaScript string is a sequence of 16-bit code units.
  The primitive values that occur in node-type metadata (\<open>NodeParameterValue\<close> is
  \<open>string | number | boolean | undefined | null\<close>), with one constructor standing for
  any object (a \<open>DisplayCondition\<close>). Numbers are the finite ones, as rationals: the
  code compares them, tests them for truthiness and prints them, and \<open>NaN\<close> and the
  infinities do not occur in a descriptor.
\<close>

type_synonym jsstring = "16 word list"

text \<open>An ASCII literal as a JavaScript string.\<close>

definition js :: "string \<Rightarrow> jsstring" where
  "js s = map (\<lambda>c. of_nat (of_char c)) s"

datatype js_value =
    VStr jsstring
  | VNum rat
  | VBool bool
  | VNull
  | VUndefined
  | VObject

text \<open>JavaScript's \<open>ToBoolean\<close>.\<close>

fun truthy :: "js_value \<Rightarrow> bool" where
  "truthy (VStr s) = (s \<noteq> [])"
| "truthy (VNum n) = (n \<noteq> 0)"
| "truthy (VBool b) = b"
| "truthy VNull = False"
| "truthy VUndefined = False"
| "truthy VObject = True"

section \<open>The project badge component\<close>

text \<open>
  \<open>Project\<close> and the resource types are declared outside the component; the records
  hold the fields the component reads. \<open>sharedWithProjects\<close> has three states: the
  key is absent (\<open>None\<close>), present and undefined (\<open>Some None\<close>), or a list.
\<close>

record Project =
  project_id :: jsstring
  project_name :: jsstring
  project_type :: jsstring

record Resource =
  homeProject :: "Project option"
  sharedWithProjects :: "Project list option option"

datatype ProjectState =
    SharedPersonal
  | SharedOwned
  | Owned
  | Personal
  | Team
  | SharedTeam
  | Unknown

text \<open>
  \<open>'sharedWithProjects' in props.resource && props.resource.sharedWithProjects?.length\<close>:
  the value of \<open>&&\<close> is its left operand when that is falsy, else its right operand.
\<close>

definition isShared :: "Resource \<Rightarrow> js_value" where
  "isShared resource =
     (case sharedWithProjects resource of
        None \<Rightarrow> VBool False
      | Some None \<Rightarrow> VUndefined
      | Some (Some ps) \<Rightarrow> VNum (of_nat (length ps)))"

text \<open>
  \<open>projectState\<close>, branch by branch. \<open>teamType\<close> is the constant
  \<open>ProjectTypes.Team\<close>, which the component imports.
\<close>

definition projectState :: "jsstring \<Rightarrow> Resource \<Rightarrow> Project option \<Rightarrow> ProjectState" where
  "projectState teamType resource personalProject =
     (if (case homeProject resource of
            None \<Rightarrow> False
          | Some hp \<Rightarrow>
              (case personalProject of
                 None \<Rightarrow> False
               | Some pp \<Rightarrow> project_id hp = project_id pp))
          \<or> homeProject resource = None
      then (if truthy (isShared resource) then SharedOwned else Owned)
      else if map_option project_type (homeProject resource) \<noteq> Some teamType
      then (if truthy (isShared resource) then SharedPersonal else Personal)
      else if map_option project_type (homeProject resource) = Some teamType
      then (if truthy (isShared resource) then SharedTeam else Team)
      else Unknown)"

text \<open>The shared variant of a state and the state it is the shared variant of.\<close>

fun unshared :: "ProjectState \<Rightarrow> ProjectState" where
  "unshared SharedOwned = Owned"
| "unshared SharedPersonal = Personal"
| "unshared SharedTeam = Team"
| "unshared s = s"

definition has_shared_projects :: "Resource \<Rightarrow> bool" where
  "has_shared_projects resource =
     (case sharedWithProjects resource of
        Some (Some ps) \<Rightarrow> ps \<noteq> []
      | _ \<Rightarrow> False)"

section \<open>Node-type metadata\<close>

text \<open>
  The descriptors of \<open>n8n-workflow\<close>, with the fields that \<open>nodeTypesUtils.ts\<close> reads.
  An object with string keys is an association list of its own properties, in the order
  in which \<open>Object.keys\<close> and \<open>for ... in\<close> enumerate it; a key may be present with
  the value \<open>undefined\<close> (\<open>None\<close>). The prototype of such an object is
  \<open>Object.prototype\<close>: a read \<open>obj[key]\<close> and a test \<open>key in obj\<close> also find what the
  object inherits from it (see \<open>getProperty\<close> and \<open>js_in\<close> below). A missing optional
  field is \<open>None\<close>.

  \<open>prop_ident\<close> is the identity of an \<open>INodeProperties\<close> object: \<open>Array.includes\<close>
  compares objects by identity, so two objects with the same fields are two records
  that differ in \<open>prop_ident\<close>, and one object that occurs twice is the same record twice.
\<close>

type_synonym show_map = "(jsstring \<times> js_value list option) list"

record IDisplayOptions =
  show_map :: "show_map option"

record INodePropertyOptions =
  option_name :: jsstring
  option_value :: "js_value option"

record INodePropertyMode =
  mode_name :: jsstring

record INodeProperties =
  prop_ident :: nat
  prop_name :: jsstring
  prop_displayOptions :: "IDisplayOptions option"
  prop_options :: "INodePropertyOptions list option"
  prop_required :: "bool option"
  noDataExpression :: "bool option"
  modes :: "INodePropertyMode list option"

record INodeCredentialDescription =
  cred_name :: jsstring
  cred_displayOptions :: "IDisplayOptions option"

record INodeTypeDescription =
  displayName :: jsstring
  properties :: "INodeProperties list"
  credentials :: "INodeCredentialDescription list option"

text \<open>
  What the module imports and the JavaScript runtime supplies: the constants of
  \<open>@/constants\<close> and \<open>Number.prototype.toString\<close>.
\<close>

record env =
  MAIN_AUTH_FIELD_NAME :: jsstring
  NON_ACTIVATABLE_TRIGGER_NODE_TYPES :: "jsstring list"
  CORE_NODES_CATEGORY :: jsstring
  TEMPLATES_NODES_FILTER :: "jsstring list"
  MAPPING_PARAMS :: "jsstring list"
  numberToString :: "rat \<Rightarrow> jsstring"

text \<open>
  The error of calling a method of \<open>undefined\<close>, or of calling what is not a function.
\<close>

datatype error = TypeError

text \<open>\<open>displayOptions?.show\<close>.\<close>

definition show_of :: "IDisplayOptions option \<Rightarrow> show_map option" where
  "show_of d = (case d of None \<Rightarrow> None | Some opts \<Rightarrow> show_map opts)"

text \<open>
  The own properties: \<open>Object.keys(show)\<close>, whether a key is an own key, and the array
  that an own key holds (none when the key is missing or holds \<open>undefined\<close>).
\<close>

definition keys :: "show_map \<Rightarrow> jsstring list" where
  "keys sh = map fst sh"

definition has_key :: "jsstring \<Rightarrow> show_map \<Rightarrow> bool" where
  "has_key k sh = (k \<in> set (keys sh))"

definition lookup :: "show_map \<Rightarrow> jsstring \<Rightarrow> js_value list option" where
  "lookup sh k = (case map_of sh k of Some (Some vs) \<Rightarrow> Some vs | _ \<Rightarrow> None)"

text \<open>
  The property names of \<open>Object.prototype\<close> (ECMAScript, with its Annex B). Each holds
  a function, but \<open>__proto__\<close>, whose getter returns \<open>Object.prototype\<close> itself: a
  truthy value that is not an array and has no method \<open>concat\<close>, \<open>includes\<close> or
  \<open>map\<close>. None is enumerable, so \<open>for ... in\<close> enumerates the own keys.
\<close>

definition Object_prototype_names :: "jsstring list" where
  "Object_prototype_names =
     map js [''constructor'', ''__defineGetter__'', ''__defineSetter__'', ''hasOwnProperty'',
             ''__lookupGetter__'', ''__lookupSetter__'', ''isPrototypeOf'',
             ''propertyIsEnumerable'', ''toString'', ''valueOf'', ''__proto__'',
             ''toLocaleString'']"

text \<open>
  \<open>show[key]\<close>: the own property when the key is an own key, else what is inherited,
  else \<open>undefined\<close>. And \<open>key in show\<close>.
\<close>

datatype member =
    Array "js_value list"
  | Undefined
  | Inherited

definition getProperty :: "show_map \<Rightarrow> jsstring \<Rightarrow> member" where
  "getProperty sh k =
     (if has_key k sh then
        (case lookup sh k of Some vs \<Rightarrow> Array vs | None \<Rightarrow> Undefined)
      else if k \<in> set Object_prototype_names then Inherited
      else Undefined)"

definition js_in :: "jsstring \<Rightarrow> show_map \<Rightarrow> bool" where
  "js_in k sh = (has_key k sh \<or> k \<in> set Object_prototype_names)"

subsection \<open>isNodeParameterRequired\<close>

text \<open>
  The callback of \<open>find\<close> has a block body with no \<open>return\<close>: it compares the names
  and returns \<open>undefined\<close>, which is falsy. The callback of \<open>forEach\<close> returns a
  boolean that \<open>forEach\<close> drops.
\<close>

function isNodeParameterRequired :: "INodeTypeDescription \<Rightarrow> INodeProperties \<Rightarrow> bool" where
  "isNodeParameterRequired nodeType parameter =
     (case show_of (prop_displayOptions parameter) of
        None \<Rightarrow> True
      | Some sh \<Rightarrow>
          (let walked =
                 map (\<lambda>name.
                        (case find (\<lambda>prop. let compared = (prop_name prop = name) in False)
                                (properties nodeType) of
                           Some relatedField \<Rightarrow>
                             (if \<not> isNodeParameterRequired nodeType relatedField
                              then False else True)
                         | None \<Rightarrow> True))
                     (keys sh)
           in True))"
  by pat_completeness auto
termination
proof (relation "{}")
  show "wf {}" by simp
next
  fix nodeType :: INodeTypeDescription and parameter :: INodeProperties
    and sh :: show_map and name :: jsstring and relatedField :: INodeProperties
  assume "find (\<lambda>prop. let compared = (prop_name prop = name) in False)
            (properties nodeType) = Some relatedField"
  then have False by (simp add: find_Some_iff)
  then show "((nodeType, relatedField), (nodeType, parameter)) \<in> {}" ..
qed

declare isNodeParameterRequired.simps [simp del]

subsection \<open>getNodeAuthFields\<close>

text \<open>
  \<open>'@version'\<close> is not a name of \<open>Object.prototype\<close>, so \<open>show['@version']\<close> is the
  own property or \<open>undefined\<close>.
\<close>

definition isNodeFieldMatchingNodeVersion :: "INodeProperties \<Rightarrow> rat option \<Rightarrow> bool" where
  "isNodeFieldMatchingNodeVersion nodeField nodeVersion =
     (case nodeVersion of
        None \<Rightarrow> True
      | Some v \<Rightarrow>
          if v \<noteq> 0 then
            (case show_of (prop_displayOptions nodeField) of
               None \<Rightarrow> True
             | Some sh \<Rightarrow>
                 (case lookup sh (js ''@version'') of
                    None \<Rightarrow> True
                  | Some versions \<Rightarrow> VNum v \<in> set versions))
          else True)"

text \<open>The innermost loop body: push the field unless it is there or its version differs.\<close>

definition pushAuthField :: "rat option \<Rightarrow> INodeProperties \<Rightarrow> INodeProperties list \<Rightarrow> INodeProperties list" where
  "pushAuthField nodeVersion nodeField authFields =
     (if nodeField \<notin> set authFields \<and> isNodeFieldMatchingNodeVersion nodeField nodeVersion
      then authFields @ [nodeField] else authFields)"

definition addFieldsForOption ::
  "INodeTypeDescription \<Rightarrow> rat option \<Rightarrow> jsstring \<Rightarrow> INodeProperties list \<Rightarrow> INodeProperties list" where
  "addFieldsForOption nodeType nodeVersion opt authFields =
     fold (pushAuthField nodeVersion)
       (filter (\<lambda>prop. prop_name prop = opt) (properties nodeType)) authFields"

definition addFieldsForCredential ::
  "INodeTypeDescription \<Rightarrow> rat option \<Rightarrow> INodeCredentialDescription \<Rightarrow> INodeProperties list
     \<Rightarrow> INodeProperties list" where
  "addFieldsForCredential nodeType nodeVersion cred authFields =
     (case show_of (cred_displayOptions cred) of
        None \<Rightarrow> authFields
      | Some sh \<Rightarrow> fold (addFieldsForOption nodeType nodeVersion) (keys sh) authFields)"

definition getNodeAuthFields :: "INodeTypeDescription option \<Rightarrow> rat option \<Rightarrow> INodeProperties list" where
  "getNodeAuthFields nodeType nodeVersion =
     (case nodeType of
        None \<Rightarrow> []
      | Some nt \<Rightarrow>
          (case credentials nt of
             None \<Rightarrow> []
           | Some creds \<Rightarrow>
               if length creds > 0
               then fold (addFieldsForCredential nt nodeVersion) creds []
               else []))"

subsection \<open>getMainAuthField\<close>

text \<open>\<open>val ? val.toString() : ''\<close>.\<close>

definition valToString :: "env \<Rightarrow> js_value \<Rightarrow> jsstring" where
  "valToString e val =
     (if truthy val then
        (case val of
           VStr s \<Rightarrow> s
         | VNum n \<Rightarrow> numberToString e n
         | VBool b \<Rightarrow> js ''true''
         | _ \<Rightarrow> js ''[object Object]'')
      else [])"

text \<open>A loop whose body may throw: the first error ends it.\<close>

fun foldE :: "('a \<Rightarrow> 'b \<Rightarrow> error + 'b) \<Rightarrow> 'a list \<Rightarrow> 'b \<Rightarrow> error + 'b" where
  "foldE f [] acc = Inr acc"
| "foldE f (x # xs) acc =
     (case f x acc of
        Inl err \<Rightarrow> Inl err
      | Inr acc' \<Rightarrow> foldE f xs acc')"

text \<open>
  \<open>dependentAuthFieldValues\<close>, the object that \<open>findAlternativeAuthField\<close> fills, as the
  map of its own properties; it starts as \<open>{}\<close>, with the prototype \<open>Object.prototype\<close>.
  One assignment for every key of every credential's \<open>displayOptions.show\<close>:
  \<open>(dependentAuthFieldValues[fieldName] || [])\<close> is the own array, or what is inherited
  under that name, or \<open>[]\<close>; calling \<open>concat\<close> of what is inherited throws a
  \<open>TypeError\<close>, as it has no such method. \<open>fieldName\<close> is an own key of \<open>show\<close>, so
  \<open>show[fieldName]\<close> is its own property.
\<close>

definition addDependentValues ::
  "env \<Rightarrow> show_map \<Rightarrow> jsstring \<Rightarrow> (jsstring \<rightharpoonup> jsstring list)
     \<Rightarrow> error + (jsstring \<rightharpoonup> jsstring list)" where
  "addDependentValues e sh fieldName d =
     (let added = map (valToString e)
                    (case lookup sh fieldName of None \<Rightarrow> [] | Some vals \<Rightarrow> vals)
      in case d fieldName of
           Some vals \<Rightarrow> Inr (d(fieldName \<mapsto> vals @ added))
         | None \<Rightarrow>
             if fieldName \<in> set Object_prototype_names then Inl TypeError
             else Inr (d(fieldName \<mapsto> [] @ added)))"

definition addCredentialValues ::
  "env \<Rightarrow> INodeCredentialDescription \<Rightarrow> (jsstring \<rightharpoonup> jsstring list)
     \<Rightarrow> error + (jsstring \<rightharpoonup> jsstring list)" where
  "addCredentialValues e cred d =
     (case show_of (cred_displayOptions cred) of
        None \<Rightarrow> Inr d
      | Some sh \<Rightarrow> foldE (addDependentValues e sh) (keys sh) d)"

definition dependentAuthFieldValues ::
  "env \<Rightarrow> INodeTypeDescription \<Rightarrow> error + (jsstring \<rightharpoonup> jsstring list)" where
  "dependentAuthFieldValues e nodeType =
     (case credentials nodeType of
        None \<Rightarrow> Inr Map.empty
      | Some creds \<Rightarrow> foldE (addCredentialValues e) creds Map.empty)"

text \<open>
  The \<open>forEach\<close> over a field's options. \<open>dependentAuthFieldValues[field.name]\<close> is read
  for an option with a string \<open>value\<close>. Calling \<open>includes\<close> on \<open>undefined\<close>, or the
  \<open>includes\<close> of what is inherited under that name, throws a \<open>TypeError\<close>, which ends
  the whole call.
\<close>

fun checkOptions ::
  "(jsstring \<rightharpoonup> jsstring list) \<Rightarrow> jsstring \<Rightarrow> INodePropertyOptions list \<Rightarrow> bool \<Rightarrow> error + bool" where
  "checkOptions d fieldName [] required = Inr required"
| "checkOptions d fieldName (opt # opts) required =
     (case option_value opt of
        Some (VStr s) \<Rightarrow>
          (case d fieldName of
             None \<Rightarrow> Inl TypeError
           | Some vals \<Rightarrow>
               checkOptions d fieldName opts (if s \<notin> set vals then False else required))
      | _ \<Rightarrow> checkOptions d fieldName opts required)"

definition isAlternativeAuthField :: "(jsstring \<rightharpoonup> jsstring list) \<Rightarrow> INodeProperties \<Rightarrow> error + bool" where
  "isAlternativeAuthField d field =
     (case prop_options field of
        None \<Rightarrow> Inr True
      | Some opts \<Rightarrow> checkOptions d (prop_name field) opts True)"

fun findField :: "(jsstring \<rightharpoonup> jsstring list) \<Rightarrow> INodeProperties list \<Rightarrow> error + INodeProperties option" where
  "findField d [] = Inr None"
| "findField d (field # fieldList) =
     (case isAlternativeAuthField d field of
        Inl err \<Rightarrow> Inl err
      | Inr required \<Rightarrow> if required then Inr (Some field) else findField d fieldList)"

definition findAlternativeAuthField ::
  "env \<Rightarrow> INodeTypeDescription \<Rightarrow> INodeProperties list \<Rightarrow> error + INodeProperties option" where
  "findAlternativeAuthField e nodeType fieldList =
     (case dependentAuthFieldValues e nodeType of
        Inl err \<Rightarrow> Inl err
      | Inr d \<Rightarrow> findField d fieldList)"

text \<open>\<open>prop.options?.find((option) => 'value' in option && option.value === 'none')\<close>.\<close>

definition noneOption :: "INodeProperties \<Rightarrow> INodePropertyOptions option" where
  "noneOption prop =
     (case prop_options prop of
        None \<Rightarrow> None
      | Some opts \<Rightarrow> find (\<lambda>opt. option_value opt = Some (VStr (js ''none''))) opts)"

definition getMainAuthField :: "env \<Rightarrow> INodeTypeDescription option \<Rightarrow> error + INodeProperties option" where
  "getMainAuthField e nodeType =
     (case nodeType of
        None \<Rightarrow> Inr None
      | Some nt \<Rightarrow>
          (let credentialDependencies = getNodeAuthFields (Some nt) None;
               authenticationField =
                 find (\<lambda>prop. prop_name prop = MAIN_AUTH_FIELD_NAME e \<and> noneOption prop = None)
                   credentialDependencies
           in case (case authenticationField of
                      Some field \<Rightarrow> Inr (Some field)
                    | None \<Rightarrow> findAlternativeAuthField e nt credentialDependencies) of
                Inl err \<Rightarrow> Inl err
              | Inr mainAuthFiled \<Rightarrow>
                  (let isFieldRequired =
                         (case mainAuthFiled of
                            Some field \<Rightarrow> isNodeParameterRequired nt field
                          | None \<Rightarrow> False)
                   in Inr (if mainAuthFiled \<noteq> None \<and> isFieldRequired then mainAuthFiled else None))))"

subsection \<open>Credentials of a node type\<close>


definition getAllNodeCredentialForAuthType ::
  "INodeTypeDescription option \<Rightarrow> jsstring \<Rightarrow> INodeCredentialDescription list" where
  "getAllNodeCredentialForAuthType nodeType authType =
     (case nodeType of
        Some nt \<Rightarrow>
          (case credentials nt of
             None \<Rightarrow> []
           | Some creds \<Rightarrow>
               filter (\<lambda>cred. case show_of (cred_displayOptions cred) of
                                None \<Rightarrow> False
                              | Some sh \<Rightarrow> js_in authType sh) creds)
      | None \<Rightarrow> [])"

text \<open>
  \<open>cred.displayOptions?.show?.[authFieldName]?.includes(authType)\<close>: \<open>undefined\<close> when
  a link of the chain is missing; a \<open>TypeError\<close> when \<open>show[authFieldName]\<close> is
  inherited, as that has no \<open>includes\<close> to call.
\<close>

definition showsAuthType ::
  "jsstring \<Rightarrow> jsstring \<Rightarrow> INodeCredentialDescription \<Rightarrow> error + bool" where
  "showsAuthType authFieldName authType cred =
     (case show_of (cred_displayOptions cred) of
        None \<Rightarrow> Inr False
      | Some sh \<Rightarrow>
          (case getProperty sh authFieldName of
             Array vals \<Rightarrow> Inr (VStr authType \<in> set vals)
           | Undefined \<Rightarrow> Inr False
           | Inherited \<Rightarrow> Inl TypeError))"

text \<open>\<open>Array.find\<close> with a callback that may throw.\<close>

fun findE :: "('a \<Rightarrow> error + bool) \<Rightarrow> 'a list \<Rightarrow> error + 'a option" where
  "findE p [] = Inr None"
| "findE p (x # xs) =
     (case p x of
        Inl err \<Rightarrow> Inl err
      | Inr found \<Rightarrow> if found then Inr (Some x) else findE p xs)"

definition getNodeCredentialForSelectedAuthType ::
  "env \<Rightarrow> INodeTypeDescription \<Rightarrow> jsstring \<Rightarrow> error + INodeCredentialDescription option" where
  "getNodeCredentialForSelectedAuthType e nodeType authType =
     (case getMainAuthField e (Some nodeType) of
        Inl err \<Rightarrow> Inl err
      | Inr authField \<Rightarrow>
          (let authFieldName = (case authField of Some field \<Rightarrow> prop_name field | None \<Rightarrow> [])
           in case credentials nodeType of
                None \<Rightarrow> Inr None
              | Some creds \<Rightarrow> findE (showsAuthType authFieldName authType) creds))"


definition getCredentialsRelatedFields ::
  "INodeTypeDescription option \<Rightarrow> INodeCredentialDescription option \<Rightarrow> INodeProperties list" where
  "getCredentialsRelatedFields nodeType credentialType =
     (case nodeType of
        None \<Rightarrow> []
      | Some nt \<Rightarrow>
          (case credentialType of
             None \<Rightarrow> []
           | Some cred \<Rightarrow>
               (case show_of (cred_displayOptions cred) of
                  None \<Rightarrow> []
                | Some sh \<Rightarrow>
                    fold (\<lambda>opt fieldList. fieldList @ filter (\<lambda>prop. prop_name prop = opt) (properties nt))
                      (keys sh) [])))"

subsection \<open>The stores and the locale\<close>

text \<open>
  The application state that the module reaches through \<open>useCredentialsStore\<close>,
  \<open>useNodeTypesStore\<close>, \<open>useWorkflowsStore\<close> and \<open>locale\<close>. The stores are defined
  outside the module; the record holds what the module's calls depend on: the
  credential types by name (\<open>getCredentialTypeByName\<close>), the node types by name and
  version (\<open>getNodeType\<close>), the texts of the locale (\<open>baseText\<close>), and the
  \<open>updateNodeProperties\<close> calls that the workflows store has received, oldest first.
\<close>

record ICredentialType =
  credtype_name :: jsstring
  overwrittenProperties :: "jsstring list option"


record INodeUpdatePropertiesInformation =
  update_name :: jsstring
  update_parameters :: "(jsstring \<times> js_value) list"

record stores =
  credentialTypes :: "jsstring \<rightharpoonup> ICredentialType"
  nodeTypes :: "jsstring \<Rightarrow> rat \<Rightarrow> INodeTypeDescription option"
  baseText :: "jsstring \<Rightarrow> jsstring"
  updateNodePropertiesCalls :: "INodeUpdatePropertiesInformation list"

subsection \<open>getNodeAuthOptions\<close>

record NodeAuthenticationOption =
  auth_name :: jsstring
  auth_value :: jsstring
  auth_displayOptions :: "IDisplayOptions option"

text \<open>The template literal \<open>`${option.value}`\<close>, or \<open>''\<close> when the option has no value.\<close>

definition optionValueString :: "env \<Rightarrow> INodePropertyOptions \<Rightarrow> jsstring" where
  "optionValueString e opt =
     (case option_value opt of
        None \<Rightarrow> []
      | Some (VStr s) \<Rightarrow> s
      | Some (VNum n) \<Rightarrow> numberToString e n
      | Some (VBool b) \<Rightarrow> (if b then js ''true'' else js ''false'')
      | Some VNull \<Rightarrow> js ''null''
      | Some VUndefined \<Rightarrow> js ''undefined''
      | Some VObject \<Rightarrow> js ''[object Object]'')"

definition recommendedAuthTypeSuffix :: "stores \<Rightarrow> jsstring" where
  "recommendedAuthTypeSuffix st =
     baseText st (js ''credentialEdit.credentialConfig.recommendedAuthTypeSuffix'')"

text \<open>The callback of \<open>field.options.map\<close>.\<close>

definition authOption ::
  "env \<Rightarrow> stores \<Rightarrow> INodeTypeDescription \<Rightarrow> INodeProperties \<Rightarrow> INodePropertyOptions
     \<Rightarrow> error + NodeAuthenticationOption" where
  "authOption e st nodeType field opt =
     (let optionValue = optionValueString e opt
      in case getNodeCredentialForSelectedAuthType e nodeType optionValue of
           Inl err \<Rightarrow> Inl err
         | Inr cred \<Rightarrow>
             (let hasOverrides =
                    (case cred of
                       None \<Rightarrow> False
                     | Some c \<Rightarrow>
                         (case credentialTypes st (cred_name c) of
                            None \<Rightarrow> False
                          | Some credType \<Rightarrow> overwrittenProperties credType \<noteq> None))
              in Inr \<lparr> auth_name =
                         (if hasOverrides
                             \<and> \<not> suffix (recommendedAuthTypeSuffix st) (option_name opt)
                          then option_name opt @ js '' '' @ recommendedAuthTypeSuffix st
                          else option_name opt),
                       auth_value = optionValue,
                       auth_displayOptions = prop_displayOptions field \<rparr>))"

text \<open>A \<open>map\<close> whose callback may throw: the first error ends it.\<close>

fun mapE :: "('a \<Rightarrow> error + 'b) \<Rightarrow> 'a list \<Rightarrow> error + 'b list" where
  "mapE f [] = Inr []"
| "mapE f (x # xs) =
     (case f x of
        Inl err \<Rightarrow> Inl err
      | Inr y \<Rightarrow> (case mapE f xs of Inl err \<Rightarrow> Inl err | Inr ys \<Rightarrow> Inr (y # ys)))"

text \<open>The \<open>forEach\<close> over \<open>authProps\<close>, which appends each field's options.\<close>

fun collectOptions ::
  "env \<Rightarrow> stores \<Rightarrow> INodeTypeDescription \<Rightarrow> INodeProperties list \<Rightarrow> NodeAuthenticationOption list
     \<Rightarrow> error + NodeAuthenticationOption list" where
  "collectOptions e st nodeType [] acc = Inr acc"
| "collectOptions e st nodeType (field # rest) acc =
     (case prop_options field of
        None \<Rightarrow> collectOptions e st nodeType rest acc
      | Some opts \<Rightarrow>
          (case mapE (authOption e st nodeType field) opts of
             Inl err \<Rightarrow> Inl err
           | Inr mapped \<Rightarrow> collectOptions e st nodeType rest (acc @ mapped)))"

text \<open>
  The final \<open>forEach\<close>: at index \<open>i\<close> it reads the array as it is then and, when the
  name includes the suffix, removes the item (\<open>splice\<close>) and puts it first
  (\<open>unshift\<close>). The length of the array does not change.
\<close>

definition moveRecommended ::
  "jsstring \<Rightarrow> nat \<Rightarrow> NodeAuthenticationOption list \<Rightarrow> NodeAuthenticationOption list" where
  "moveRecommended recommendedSuffix i opts =
     (let item = opts ! i
      in if sublist recommendedSuffix (auth_name item)
         then item # (take i opts @ drop (Suc i) opts)
         else opts)"

definition sortRecommended ::
  "jsstring \<Rightarrow> NodeAuthenticationOption list \<Rightarrow> NodeAuthenticationOption list" where
  "sortRecommended recommendedSuffix opts =
     fold (moveRecommended recommendedSuffix) [0..<length opts] opts"

definition getNodeAuthOptions ::
  "env \<Rightarrow> stores \<Rightarrow> INodeTypeDescription option \<Rightarrow> rat option
     \<Rightarrow> error + NodeAuthenticationOption list" where
  "getNodeAuthOptions e st nodeType nodeVersion =
     (case nodeType of
        None \<Rightarrow> Inr []
      | Some nt \<Rightarrow>
          (let recommendedSuffix = recommendedAuthTypeSuffix st
           in case getMainAuthField e (Some nt) of
                Inl err \<Rightarrow> Inl err
              | Inr authProp \<Rightarrow>
                  (let authProps =
                         filter (\<lambda>prop. Some (prop_name prop) = map_option prop_name authProp)
                           (getNodeAuthFields (Some nt) nodeVersion)
                   in case collectOptions e st nt authProps [] of
                        Inl err \<Rightarrow> Inl err
                      | Inr opts \<Rightarrow> Inr (sortRecommended recommendedSuffix opts))))"

section \<open>Resource-mapper fields\<close>

record ResourceMapperField =
  field_id :: jsstring
  field_displayName :: jsstring
  field_required :: bool
  defaultMatch :: bool
  display :: bool
  canBeUsedToMatch :: "bool option"
  field_type :: "jsstring option"

subsection \<open>parseResourceMapperFieldName\<close>

text \<open>
  \<open>RESOURCE_MAPPER_FIELD_NAME_REGEX\<close> is \<^verbatim>\<open>/value\[\"(.+)\"\]/\<close>, without flags. The
  dot matches one code unit that is not a line terminator (U+000A, U+000D, U+2028,
  U+2029). The matcher is the backtracking one of the language: the leftmost start
  first and, at a start, the longest group first.
\<close>

definition isLineTerminator :: "16 word \<Rightarrow> bool" where
  "isLineTerminator c = (c = 0x0A \<or> c = 0x0D \<or> c = 0x2028 \<or> c = 0x2029)"

text \<open>
  The group \<open>(.+)\<close> followed by \<^verbatim>\<open>"]\<close>, for a group of at most \<open>n\<close> code units:
  \<open>n\<close> first, then one less, down to one.
\<close>

fun groupAt :: "jsstring \<Rightarrow> nat \<Rightarrow> jsstring option" where
  "groupAt rest 0 = None"
| "groupAt rest (Suc n) =
     (if prefix (js ''\"]'') (drop (Suc n) rest) then Some (take (Suc n) rest)
      else groupAt rest n)"

text \<open>A match that starts at the first code unit: the whole match and the group.\<close>

definition matchAt :: "jsstring \<Rightarrow> (jsstring \<times> jsstring) option" where
  "matchAt s =
     (if prefix (js ''value[\"'') s then
        (let rest = drop 7 s
         in case groupAt rest (length (takeWhile (\<lambda>c. \<not> isLineTerminator c) rest)) of
              None \<Rightarrow> None
            | Some g \<Rightarrow> Some (js ''value[\"'' @ g @ js ''\"]'', g))
      else None)"

text \<open>\<open>fullName.match(RESOURCE_MAPPER_FIELD_NAME_REGEX)\<close>: null, or the array of the match.\<close>

fun regexMatch :: "jsstring \<Rightarrow> (jsstring \<times> jsstring) option" where
  "regexMatch [] = matchAt []"
| "regexMatch (c # cs) =
     (case matchAt (c # cs) of
        Some m \<Rightarrow> Some m
      | None \<Rightarrow> regexMatch cs)"

text \<open>\<open>match.pop()\<close> is the last element of the array, the group.\<close>

definition parseResourceMapperFieldName :: "jsstring \<Rightarrow> jsstring" where
  "parseResourceMapperFieldName fullName =
     (case regexMatch fullName of
        Some m \<Rightarrow> snd m
      | None \<Rightarrow> fullName)"

subsection \<open>isResourceMapperFieldListStale\<close>

text \<open>\<open>new Map(newFields.map((field) => [field.id, field]))\<close>: a later entry replaces an
  earlier one with the same key.\<close>

definition setEntry ::
  "ResourceMapperField \<Rightarrow> (jsstring \<rightharpoonup> ResourceMapperField) \<Rightarrow> (jsstring \<rightharpoonup> ResourceMapperField)" where
  "setEntry field m = m(field_id field \<mapsto> field)"

definition newFieldsMap :: "ResourceMapperField list \<Rightarrow> (jsstring \<rightharpoonup> ResourceMapperField)" where
  "newFieldsMap newFields = fold setEntry newFields Map.empty"

text \<open>The loop over \<open>oldFields\<close>, with its two early returns.\<close>

fun staleLoop :: "(jsstring \<rightharpoonup> ResourceMapperField) \<Rightarrow> ResourceMapperField list \<Rightarrow> bool" where
  "staleLoop m [] = False"
| "staleLoop m (oldField # rest) =
     (case m (field_id oldField) of
        None \<Rightarrow> True
      | Some newField \<Rightarrow>
          if field_displayName oldField \<noteq> field_displayName newField
             \<or> field_required oldField \<noteq> field_required newField
             \<or> defaultMatch oldField \<noteq> defaultMatch newField
             \<or> display oldField \<noteq> display newField
             \<or> canBeUsedToMatch oldField \<noteq> canBeUsedToMatch newField
             \<or> field_type oldField \<noteq> field_type newField
          then True
          else staleLoop m rest)"

definition isResourceMapperFieldListStale ::
  "ResourceMapperField list \<Rightarrow> ResourceMapperField list \<Rightarrow> bool" where
  "isResourceMapperFieldListStale oldFields newFields =
     (if length oldFields \<noteq> length newFields then True
      else staleLoop (newFieldsMap newFields) oldFields)"

subsection \<open>isMatchingField and fieldCannotBeDeleted\<close>



section \<open>The other exported functions\<close>

subsection \<open>Names\<close>











subsection \<open>Nodes and templates\<close>





subsection \<open>isCommunityPackageName\<close>






subsection \<open>Parameter values\<close>


text \<open>
  A parameter value is a primitive, a resource locator (what \<open>isResourceLocatorValue\<close>
  of \<open>n8n-workflow\<close> recognises) with its \<open>value\<close>, or another object.
\<close>

datatype param_value =
    Primitive js_value
  | ResourceLocator js_value
  | OtherObject







subsection \<open>getAuthTypeForNodeCredential\<close>


subsection \<open>updateNodeAuthType\<close>



subsection \<open>getThemedValue\<close>




section \<open>Calls of the exported functions\<close>






section \<open>Predicates of the specification\<close>

text \<open>
  What is said of a field returned by \<open>getNodeAuthFields\<close>: it is a property of the node
  type, it matches the node version, and its name is a key of the
  \<open>displayOptions.show\<close> of one of the node type's credentials.
\<close>

definition authFieldOf :: "INodeTypeDescription \<Rightarrow> rat option \<Rightarrow> INodeProperties \<Rightarrow> bool" where
  "authFieldOf nt nodeVersion field =
     (field \<in> set (properties nt)
      \<and> isNodeFieldMatchingNodeVersion field nodeVersion
      \<and> (\<exists>creds cred sh. credentials nt = Some creds \<and> cred \<in> set creds
            \<and> show_of (cred_displayOptions cred) = Some sh \<and> has_key (prop_name field) sh))"

text \<open>
  A string contains a substring matching \<^verbatim>\<open>value["..."]\<close>: the dots stand for one or more
  code units, none a line terminator.
\<close>

definition containsFieldNameEncoding :: "jsstring \<Rightarrow> bool" where
  "containsFieldNameEncoding s =
     (\<exists>pre g post. s = pre @ js ''value[\"'' @ g @ js ''\"]'' @ post
        \<and> g \<noteq> [] \<and> (\<forall>c \<in> set g. \<not> isLineTerminator c))"



section \<open>Example descriptors\<close>

text \<open>
  A node type with an \<open>authentication\<close> field, a second \<open>authentication\<close> field for
  version 1 only, and one credential for each authentication type; and a node type whose
  credentials depend on a field of another name. \<open>numberToString\<close> is given at the
  numbers that occur here.
\<close>

definition example_env :: env where
  "example_env =
     \<lparr> MAIN_AUTH_FIELD_NAME = js ''authentication'',
       NON_ACTIVATABLE_TRIGGER_NODE_TYPES = [js ''manualTrigger''],
       CORE_NODES_CATEGORY = js ''Core Nodes'',
       TEMPLATES_NODES_FILTER = [js ''start''],
       MAPPING_PARAMS = [js ''$json''],
       numberToString = (\<lambda>n. if n = 1 then js ''1'' else if n = 2 then js ''2'' else js ''0'') \<rparr>"

definition authentication_field :: INodeProperties where
  "authentication_field =
     \<lparr> prop_ident = 0, prop_name = js ''authentication'', prop_displayOptions = None,
       prop_options =
         Some [\<lparr> option_name = js ''API Key'', option_value = Some (VStr (js ''apiKey'')) \<rparr>,
               \<lparr> option_name = js ''OAuth2'', option_value = Some (VStr (js ''oAuth2'')) \<rparr>],
       prop_required = None, noDataExpression = None, modes = None \<rparr>"

definition resource_field :: INodeProperties where
  "resource_field =
     \<lparr> prop_ident = 1, prop_name = js ''resource'', prop_displayOptions = None,
       prop_options =
         Some [\<lparr> option_name = js ''Message'', option_value = Some (VStr (js ''message'')) \<rparr>],
       prop_required = None, noDataExpression = None, modes = None \<rparr>"

definition authentication_v1_field :: INodeProperties where
  "authentication_v1_field =
     \<lparr> prop_ident = 2, prop_name = js ''authentication'',
       prop_displayOptions = Some \<lparr> show_map = Some [(js ''@version'', Some [VNum 1])] \<rparr>,
       prop_options =
         Some [\<lparr> option_name = js ''API Key'', option_value = Some (VStr (js ''apiKey'')) \<rparr>],
       prop_required = None, noDataExpression = None, modes = None \<rparr>"

definition api_credential :: INodeCredentialDescription where
  "api_credential =
     \<lparr> cred_name = js ''exampleApi'',
       cred_displayOptions =
         Some \<lparr> show_map = Some [(js ''authentication'', Some [VStr (js ''apiKey'')])] \<rparr> \<rparr>"

definition oauth_credential :: INodeCredentialDescription where
  "oauth_credential =
     \<lparr> cred_name = js ''exampleOAuth2Api'',
       cred_displayOptions =
         Some \<lparr> show_map = Some [(js ''authentication'', Some [VStr (js ''oAuth2'')])] \<rparr> \<rparr>"

definition example_nodeType :: INodeTypeDescription where
  "example_nodeType =
     \<lparr> displayName = js ''Example'',
       properties = [authentication_field, resource_field, authentication_v1_field],
       credentials = Some [api_credential, oauth_credential] \<rparr>"

definition mode_field :: INodeProperties where
  "mode_field =
     \<lparr> prop_ident = 0, prop_name = js ''mode'', prop_displayOptions = None,
       prop_options =
         Some [\<lparr> option_name = js ''Token'', option_value = Some (VStr (js ''token'')) \<rparr>],
       prop_required = None, noDataExpression = None, modes = None \<rparr>"

definition token_credential :: INodeCredentialDescription where
  "token_credential =
     \<lparr> cred_name = js ''tokenApi'',
       cred_displayOptions =
         Some \<lparr> show_map = Some [(js ''mode'', Some [VStr (js ''token'')])] \<rparr> \<rparr>"

definition mode_nodeType :: INodeTypeDescription where
  "mode_nodeType =
     \<lparr> displayName = js ''Mode'',
       properties = [mode_field],
       credentials = Some [token_credential] \<rparr>"



definition email_field :: ResourceMapperField where
  "email_field =
     \<lparr> field_id = js ''email'', field_displayName = js ''Email'', field_required = True,
       defaultMatch = True, display = True, canBeUsedToMatch = Some True,
       field_type = Some (js ''string'') \<rparr>"

definition age_field :: ResourceMapperField where
  "age_field =
     \<lparr> field_id = js ''age'', field_displayName = js ''Age'', field_required = False,
       defaultMatch = False, display = True, canBeUsedToMatch = None,
       field_type = Some (js ''number'') \<rparr>"





section \<open>Properties of the badge component\<close>

lemma truthy_isShared: "truthy (isShared resource) = has_shared_projects resource"
  by (simp add: isShared_def has_shared_projects_def split: option.splits)

text \<open>
  C3: for every resource and every personal project, \<open>projectState\<close> is one of Owned,
  SharedOwned, Personal, SharedPersonal, Team and SharedTeam; the final
  \<open>ProjectState.Unknown\<close> is never returned.
\<close>

theorem projectState_exhaustive:
  "projectState teamType resource personalProject
     \<in> {Owned, SharedOwned, Personal, SharedPersonal, Team, SharedTeam}
   \<and> projectState teamType resource personalProject \<noteq> Unknown"
  by (simp add: projectState_def)

text \<open>
  C5: the state is a shared variant exactly when the resource has a
  \<open>sharedWithProjects\<close> property holding a non-empty list; otherwise it is Owned,
  Personal or Team, and in both cases it corresponds to the state of the same resource
  without the property.
\<close>

theorem projectState_shared_iff:
  "(projectState teamType resource personalProject \<in> {SharedOwned, SharedPersonal, SharedTeam})
     = has_shared_projects resource
   \<and> (if has_shared_projects resource
       then unshared (projectState teamType resource personalProject)
            = projectState teamType (resource\<lparr>sharedWithProjects := None\<rparr>) personalProject
       else projectState teamType resource personalProject \<in> {Owned, Personal, Team}
            \<and> projectState teamType resource personalProject
              = projectState teamType (resource\<lparr>sharedWithProjects := None\<rparr>) personalProject)"
  by (cases "has_shared_projects resource")
    (auto simp: projectState_def truthy_isShared has_shared_projects_def isShared_def
          split: option.splits)

section \<open>Properties of the node-type functions\<close>

lemma fold_invariant:
  "I acc \<Longrightarrow> (\<And>x a. x \<in> set xs \<Longrightarrow> I a \<Longrightarrow> I (f x a)) \<Longrightarrow> I (fold f xs acc)"
  by (induction xs arbitrary: acc) simp_all

subsection \<open>isNodeParameterRequired\<close>

lemma isNodeParameterRequired_True [simp]: "isNodeParameterRequired nodeType parameter"
  by (subst isNodeParameterRequired.simps) (simp add: Let_def split: option.splits)

text \<open>
  C2: \<open>isNodeParameterRequired\<close> returns true for every node type and every parameter,
  with or without \<open>displayOptions.show\<close>. The function is total: its termination proof
  shows that the recursive call is never reached, because \<open>find\<close> returns no field.
\<close>

theorem isNodeParameterRequired_always_true:
  "isNodeParameterRequired nodeType parameter = True
   \<and> find (\<lambda>prop. let compared = (prop_name prop = name) in False) (properties nodeType) = None"
  by (simp add: find_None_iff)

subsection \<open>Examples evaluated\<close>

lemmas example_defs = example_env_def authentication_field_def resource_field_def
  authentication_v1_field_def api_credential_def oauth_credential_def example_nodeType_def
  mode_field_def token_credential_def mode_nodeType_def

lemmas auth_field_defs = js_def show_of_def keys_def has_key_def lookup_def
  isNodeFieldMatchingNodeVersion_def pushAuthField_def addFieldsForOption_def
  addFieldsForCredential_def getNodeAuthFields_def


lemma example_getNodeAuthFields_v2:
  "getNodeAuthFields (Some example_nodeType) (Some 2) = [authentication_field]"
  by (simp add: example_defs auth_field_defs)

lemma mode_getNodeAuthFields: "getNodeAuthFields (Some mode_nodeType) None = [mode_field]"
  by (simp add: example_defs auth_field_defs)

lemma getMainAuthField_Some:
  "getMainAuthField e (Some nt) =
     (case (case find (\<lambda>prop. prop_name prop = MAIN_AUTH_FIELD_NAME e \<and> noneOption prop = None)
                   (getNodeAuthFields (Some nt) None) of
              Some field \<Rightarrow> Inr (Some field)
            | None \<Rightarrow> findAlternativeAuthField e nt (getNodeAuthFields (Some nt) None)) of
        Inl err \<Rightarrow> Inl err
      | Inr mainAuthFiled \<Rightarrow> Inr mainAuthFiled)"
  by (auto simp: getMainAuthField_def Let_def split: option.splits sum.splits)


lemma mode_dependentAuthFieldValues:
  "dependentAuthFieldValues example_env mode_nodeType = Inr [js ''mode'' \<mapsto> [js ''token'']]"
  by (simp add: example_defs dependentAuthFieldValues_def addCredentialValues_def
      addDependentValues_def valToString_def show_of_def keys_def lookup_def
      Object_prototype_names_def js_def)

lemma mode_getMainAuthField:
  "getMainAuthField example_env (Some mode_nodeType) = Inr (Some mode_field)"
  unfolding getMainAuthField_Some mode_getNodeAuthFields findAlternativeAuthField_def
    mode_dependentAuthFieldValues
  by (simp add: example_defs js_def noneOption_def isAlternativeAuthField_def)

subsection \<open>getNodeAuthFields\<close>

lemma pushAuthField_invariant:
  assumes "distinct acc" and "\<forall>f \<in> set acc. P f" and "isNodeFieldMatchingNodeVersion field v \<Longrightarrow> P field"
  shows "distinct (pushAuthField v field acc) \<and> (\<forall>f \<in> set (pushAuthField v field acc). P f)"
  using assms by (auto simp: pushAuthField_def)

lemma addFieldsForOption_invariant:
  assumes "distinct acc \<and> (\<forall>f \<in> set acc. P f)"
    and "\<And>field. field \<in> set (properties nt) \<Longrightarrow> prop_name field = opt
           \<Longrightarrow> isNodeFieldMatchingNodeVersion field v \<Longrightarrow> P field"
  shows "distinct (addFieldsForOption nt v opt acc)
         \<and> (\<forall>f \<in> set (addFieldsForOption nt v opt acc). P f)"
  unfolding addFieldsForOption_def
  by (rule fold_invariant [where I = "\<lambda>a. distinct a \<and> (\<forall>f \<in> set a. P f)"])
     (use assms in \<open>auto intro!: pushAuthField_invariant [THEN conjunct1] simp: pushAuthField_def\<close>)


lemma addFieldsForCredential_invariant:
  assumes "distinct acc \<and> (\<forall>f \<in> set acc. P f)"
    and "\<And>field sh. show_of (cred_displayOptions cred) = Some sh \<Longrightarrow> field \<in> set (properties nt)
           \<Longrightarrow> has_key (prop_name field) sh
           \<Longrightarrow> isNodeFieldMatchingNodeVersion field v \<Longrightarrow> P field"
  shows "distinct (addFieldsForCredential nt v cred acc)
         \<and> (\<forall>f \<in> set (addFieldsForCredential nt v cred acc). P f)"
proof (cases "show_of (cred_displayOptions cred)")
  case None
  with assms(1) show ?thesis by (simp add: addFieldsForCredential_def)
next
  case (Some sh)
  have "distinct (fold (addFieldsForOption nt v) (keys sh) acc)
        \<and> (\<forall>f \<in> set (fold (addFieldsForOption nt v) (keys sh) acc). P f)"
  proof (rule fold_invariant [where I = "\<lambda>a. distinct a \<and> (\<forall>f \<in> set a. P f)"])
    show "distinct acc \<and> (\<forall>f \<in> set acc. P f)" by (rule assms(1))
  next
    fix opt a
    assume opt: "opt \<in> set (keys sh)" and a: "distinct a \<and> (\<forall>f \<in> set a. P f)"
    show "distinct (addFieldsForOption nt v opt a)
          \<and> (\<forall>f \<in> set (addFieldsForOption nt v opt a). P f)"
    proof (rule addFieldsForOption_invariant [OF a])
      fix field
      assume "field \<in> set (properties nt)" "prop_name field = opt"
        "isNodeFieldMatchingNodeVersion field v"
      with opt Some show "P field" by (auto intro: assms(2) simp: has_key_def)
    qed
  qed
  with Some show ?thesis by (simp add: addFieldsForCredential_def)
qed

lemma getNodeAuthFields_invariant:
  "distinct (getNodeAuthFields (Some nt) v)
   \<and> (\<forall>f \<in> set (getNodeAuthFields (Some nt) v). authFieldOf nt v f)"
proof (cases "credentials nt")
  case None
  then show ?thesis by (simp add: getNodeAuthFields_def)
next
  case (Some creds)
  have "distinct (fold (addFieldsForCredential nt v) creds [])
        \<and> (\<forall>f \<in> set (fold (addFieldsForCredential nt v) creds []). authFieldOf nt v f)"
  proof (rule fold_invariant [where I = "\<lambda>a. distinct a \<and> (\<forall>f \<in> set a. authFieldOf nt v f)"])
    show "distinct [] \<and> (\<forall>f \<in> set []. authFieldOf nt v f)" by simp
  next
    fix cred a
    assume cred: "cred \<in> set creds"
      and a: "distinct a \<and> (\<forall>f \<in> set a. authFieldOf nt v f)"
    show "distinct (addFieldsForCredential nt v cred a)
          \<and> (\<forall>f \<in> set (addFieldsForCredential nt v cred a). authFieldOf nt v f)"
    proof (rule addFieldsForCredential_invariant [OF a])
      fix field sh
      assume "show_of (cred_displayOptions cred) = Some sh" "field \<in> set (properties nt)"
        "has_key (prop_name field) sh" "isNodeFieldMatchingNodeVersion field v"
      with cred Some show "authFieldOf nt v field"
        unfolding authFieldOf_def by blast
    qed
  qed
  with Some show ?thesis by (simp add: getNodeAuthFields_def)
qed

text \<open>
  C8: every element of \<open>getNodeAuthFields(nodeType, nodeVersion)\<close> is an element of
  \<open>nodeType.properties\<close> whose name is a key of some credential's
  \<open>displayOptions.show\<close> and which matches the node version, and no element occurs
  twice in the result.
\<close>

theorem getNodeAuthFields_sound:
  "distinct (getNodeAuthFields nodeType nodeVersion)
   \<and> (\<forall>field \<in> set (getNodeAuthFields nodeType nodeVersion).
         \<exists>nt. nodeType = Some nt \<and> authFieldOf nt nodeVersion field)"
proof (cases nodeType)
  case None
  then show ?thesis by (simp add: getNodeAuthFields_def)
next
  case (Some nt)
  with getNodeAuthFields_invariant [of nt nodeVersion] show ?thesis by simp
qed

theorem getNodeAuthFields_sound_witness:
  "getNodeAuthFields (Some example_nodeType) (Some 2) = [authentication_field]
   \<and> distinct (getNodeAuthFields (Some example_nodeType) (Some 2))
   \<and> authFieldOf example_nodeType (Some 2) authentication_field
   \<and> authentication_field \<in> set (properties example_nodeType)
   \<and> isNodeFieldMatchingNodeVersion authentication_field (Some 2)"
  using getNodeAuthFields_sound [of "Some example_nodeType" "Some 2"]
  by (simp add: example_getNodeAuthFields_v2 authFieldOf_def)

subsection \<open>getMainAuthField\<close>

lemma addDependentValues_dom:
  "addDependentValues e sh k d = Inr d' \<Longrightarrow> dom d' = insert k (dom d)"
  by (auto simp: addDependentValues_def Let_def split: option.splits if_splits)

lemma foldE_addDependentValues_dom:
  "foldE (addDependentValues e sh) ks d = Inr d' \<Longrightarrow> dom d' = dom d \<union> set ks"
proof (induction ks arbitrary: d)
  case Nil
  then show ?case by simp
next
  case (Cons k ks)
  then obtain d1 where d1: "addDependentValues e sh k d = Inr d1"
    and rest: "foldE (addDependentValues e sh) ks d1 = Inr d'"
    by (auto split: sum.splits)
  from Cons.IH [OF rest] addDependentValues_dom [OF d1] show ?case by auto
qed

lemma addCredentialValues_dom:
  "addCredentialValues e cred d = Inr d'
   \<Longrightarrow> dom d' = dom d \<union> (case show_of (cred_displayOptions cred) of
                            None \<Rightarrow> {}
                          | Some sh \<Rightarrow> set (keys sh))"
proof (cases "show_of (cred_displayOptions cred)")
  case None
  assume "addCredentialValues e cred d = Inr d'"
  with None show ?thesis by (simp add: addCredentialValues_def)
next
  case (Some sh)
  assume "addCredentialValues e cred d = Inr d'"
  with Some have "foldE (addDependentValues e sh) (keys sh) d = Inr d'"
    by (simp add: addCredentialValues_def)
  from foldE_addDependentValues_dom [OF this] Some show ?thesis by simp
qed

lemma foldE_addCredentialValues_dom:
  "foldE (addCredentialValues e) creds d = Inr d'
   \<Longrightarrow> dom d' = dom d \<union> (\<Union>cred \<in> set creds.
                            case show_of (cred_displayOptions cred) of
                              None \<Rightarrow> {}
                            | Some sh \<Rightarrow> set (keys sh))"
proof (induction creds arbitrary: d)
  case Nil
  then show ?case by simp
next
  case (Cons cred creds)
  then obtain d1 where d1: "addCredentialValues e cred d = Inr d1"
    and rest: "foldE (addCredentialValues e) creds d1 = Inr d'"
    by (auto split: sum.splits)
  from Cons.IH [OF rest] addCredentialValues_dom [OF d1] show ?case by auto
qed

lemma dependentAuthFieldValues_defined:
  assumes "authFieldOf nt v field" and "dependentAuthFieldValues e nt = Inr d"
  shows "d (prop_name field) \<noteq> None"
proof -
  from assms(1) obtain creds cred sh where c: "credentials nt = Some creds" "cred \<in> set creds"
    "show_of (cred_displayOptions cred) = Some sh" "has_key (prop_name field) sh"
    unfolding authFieldOf_def by blast
  from assms(2) c(1) have "foldE (addCredentialValues e) creds Map.empty = Inr d"
    by (simp add: dependentAuthFieldValues_def)
  from foldE_addCredentialValues_dom [OF this] c(2-4) have "prop_name field \<in> dom d"
    unfolding has_key_def by force
  then show ?thesis by auto
qed

lemma checkOptions_no_error:
  "d fieldName \<noteq> None \<Longrightarrow> \<exists>r. checkOptions d fieldName opts required = Inr r"
  by (induction d fieldName opts required rule: checkOptions.induct)
     (auto split: option.splits js_value.splits)

lemma isAlternativeAuthField_no_error:
  "d (prop_name field) \<noteq> None \<Longrightarrow> \<exists>r. isAlternativeAuthField d field = Inr r"
  using checkOptions_no_error [of d "prop_name field"]
  by (auto simp: isAlternativeAuthField_def split: option.splits)

lemma findField_no_error:
  "\<forall>field \<in> set fieldList. d (prop_name field) \<noteq> None \<Longrightarrow> \<exists>r. findField d fieldList = Inr r"
proof (induction fieldList)
  case Nil
  then show ?case by simp
next
  case (Cons field fieldList)
  then obtain r where "isAlternativeAuthField d field = Inr r"
    using isAlternativeAuthField_no_error [of d field] by auto
  with Cons show ?case by simp
qed

lemma findField_filled:
  assumes "dependentAuthFieldValues e nt = Inr d"
  shows "\<exists>r. findField d (getNodeAuthFields (Some nt) None) = Inr r"
  using getNodeAuthFields_invariant [of nt None] dependentAuthFieldValues_defined [OF _ assms]
  by (intro findField_no_error) blast

text \<open>
  C4: every element of \<open>getNodeAuthFields(nodeType)\<close> has a name that is a key of some
  credential's \<open>displayOptions.show\<close>; \<open>dependentAuthFieldValues\<close>, once it is filled,
  holds an array at that name; and so the \<open>find\<close> over these fields, which calls
  \<open>includes\<close> on the lookup, throws nothing.
\<close>

theorem findAlternativeAuthField_lookup_defined:
  "(\<forall>field \<in> set (getNodeAuthFields (Some nodeType) None).
      (\<exists>creds cred sh. credentials nodeType = Some creds \<and> cred \<in> set creds
          \<and> show_of (cred_displayOptions cred) = Some sh \<and> has_key (prop_name field) sh)
      \<and> (\<forall>d. dependentAuthFieldValues e nodeType = Inr d \<longrightarrow> d (prop_name field) \<noteq> None))
   \<and> (\<forall>d. dependentAuthFieldValues e nodeType = Inr d
          \<longrightarrow> (\<exists>r. findField d (getNodeAuthFields (Some nodeType) None) = Inr r))"
proof (intro conjI ballI allI impI)
  fix field
  assume "field \<in> set (getNodeAuthFields (Some nodeType) None)"
  then have f: "authFieldOf nodeType None field"
    using getNodeAuthFields_invariant [of nodeType None] by blast
  then show "\<exists>creds cred sh. credentials nodeType = Some creds \<and> cred \<in> set creds
          \<and> show_of (cred_displayOptions cred) = Some sh \<and> has_key (prop_name field) sh"
    by (simp add: authFieldOf_def)
  fix d
  assume "dependentAuthFieldValues e nodeType = Inr d"
  with f show "d (prop_name field) \<noteq> None"
    by (rule dependentAuthFieldValues_defined)
next
  fix d
  assume "dependentAuthFieldValues e nodeType = Inr d"
  then show "\<exists>r. findField d (getNodeAuthFields (Some nodeType) None) = Inr r"
    by (rule findField_filled)
qed

theorem findAlternativeAuthField_lookup_defined_witness:
  "getNodeAuthFields (Some mode_nodeType) None = [mode_field]
   \<and> dependentAuthFieldValues example_env mode_nodeType = Inr [js ''mode'' \<mapsto> [js ''token'']]
   \<and> [js ''mode'' \<mapsto> [js ''token'']] (prop_name mode_field) = Some [js ''token'']
   \<and> findField [js ''mode'' \<mapsto> [js ''token'']] [mode_field] = Inr (Some mode_field)"
  using findAlternativeAuthField_lookup_defined [of mode_nodeType example_env]
  by (simp add: mode_getNodeAuthFields mode_dependentAuthFieldValues
      isAlternativeAuthField_def mode_field_def js_def)

text \<open>
  C6: with a null node type, \<open>getMainAuthField\<close> returns null and
  \<open>getNodeAuthOptions\<close>, \<open>getNodeAuthFields\<close>, \<open>getAllNodeCredentialForAuthType\<close> and
  \<open>getCredentialsRelatedFields\<close> return the empty list, whatever their other arguments.
\<close>

theorem null_nodeType_neutral:
  "getMainAuthField e None = Inr None
   \<and> getNodeAuthOptions e st None nodeVersion = Inr []
   \<and> getNodeAuthFields None nodeVersion = []
   \<and> getAllNodeCredentialForAuthType None authType = []
   \<and> getCredentialsRelatedFields None credentialType = []"
  by (simp add: getMainAuthField_def getNodeAuthOptions_def getNodeAuthFields_def
      getAllNodeCredentialForAuthType_def getCredentialsRelatedFields_def)

subsection \<open>When getMainAuthField returns\<close>











subsection \<open>getNodeCredentialForSelectedAuthType\<close>
















section \<open>Properties of the resource-mapper functions\<close>

subsection \<open>isResourceMapperFieldListStale\<close>

lemma fold_update_other:
  "k \<notin> field_id ` set xs \<Longrightarrow> fold setEntry xs m k = m k"
  by (induction xs arbitrary: m) (auto simp: setEntry_def)

lemma fold_update_distinct:
  "distinct (map field_id xs) \<Longrightarrow> f \<in> set xs
   \<Longrightarrow> fold setEntry xs m (field_id f) = Some f"
proof (induction xs arbitrary: m)
  case Nil
  then show ?case by simp
next
  case (Cons x xs)
  show ?case
  proof (cases "f = x")
    case True
    with Cons.prems have "field_id x \<notin> field_id ` set xs" by simp
    then have "fold setEntry xs (setEntry x m) (field_id x) = setEntry x m (field_id x)"
      by (rule fold_update_other)
    also have "\<dots> = Some x" by (simp add: setEntry_def)
    finally show ?thesis using True by simp
  next
    case False
    with Cons show ?thesis by simp
  qed
qed

lemma newFieldsMap_distinct:
  "distinct (map field_id xs) \<Longrightarrow> f \<in> set xs \<Longrightarrow> newFieldsMap xs (field_id f) = Some f"
  by (simp add: newFieldsMap_def fold_update_distinct)

lemma staleLoop_same:
  "\<forall>f \<in> set xs. m (field_id f) = Some f \<Longrightarrow> \<not> staleLoop m xs"
  by (induction xs) auto

text \<open>
  C9: for every list of resource-mapper fields with pairwise distinct ids,
  \<open>isResourceMapperFieldListStale(l, l)\<close> is false.
\<close>

theorem isResourceMapperFieldListStale_reflexive:
  "distinct (map field_id l) \<Longrightarrow> isResourceMapperFieldListStale l l = False"
  by (simp add: isResourceMapperFieldListStale_def staleLoop_same newFieldsMap_distinct)

theorem isResourceMapperFieldListStale_reflexive_witness:
  "distinct (map field_id [email_field, age_field])
   \<and> isResourceMapperFieldListStale [email_field, age_field] [email_field, age_field] = False"
  using isResourceMapperFieldListStale_reflexive [of "[email_field, age_field]"]
  by (simp add: email_field_def age_field_def js_def)

subsection \<open>parseResourceMapperFieldName\<close>

lemma groupAt_sound:
  "groupAt rest n = Some g
   \<Longrightarrow> \<exists>m. 1 \<le> m \<and> m \<le> n \<and> g = take m rest \<and> prefix (js ''\"]'') (drop m rest)"
proof (induction n)
  case 0
  then show ?case by simp
next
  case (Suc n)
  show ?case
  proof (cases "prefix (js ''\"]'') (drop (Suc n) rest)")
    case True
    with Suc.prems show ?thesis by (intro exI [of _ "Suc n"]) auto
  next
    case False
    with Suc obtain m where "1 \<le> m" "m \<le> n" "g = take m rest" "prefix (js ''\"]'') (drop m rest)"
      by auto
    then show ?thesis by (intro exI [of _ m]) auto
  qed
qed

lemma groupAt_greedy:
  "1 \<le> m \<Longrightarrow> m \<le> n \<Longrightarrow> prefix (js ''\"]'') (drop m rest)
   \<Longrightarrow> \<forall>k. m < k \<and> k \<le> n \<longrightarrow> \<not> prefix (js ''\"]'') (drop k rest)
   \<Longrightarrow> groupAt rest n = Some (take m rest)"
proof (induction n)
  case 0
  then show ?case by simp
next
  case (Suc n)
  show ?case
  proof (cases "m = Suc n")
    case True
    with Suc.prems show ?thesis by simp
  next
    case False
    with Suc.prems have "m \<le> n" "\<not> prefix (js ''\"]'') (drop (Suc n) rest)" by auto
    with Suc show ?thesis by simp
  qed
qed

lemma groupAt_complete:
  "1 \<le> m \<Longrightarrow> m \<le> n \<Longrightarrow> prefix (js ''\"]'') (drop m rest) \<Longrightarrow> groupAt rest n \<noteq> None"
proof (induction n)
  case 0
  then show ?case by simp
next
  case (Suc n)
  then show ?case by (cases "m = Suc n") auto
qed


lemma js_length [simp]: "length (js s) = length s"
  by (simp add: js_def)

lemma quote_bracket_not_terminator: "\<forall>c \<in> set (js ''\"]''). \<not> isLineTerminator c"
  by (simp add: js_def isLineTerminator_def)

lemma take_takeWhile:
  "m \<le> length (takeWhile P xs) \<Longrightarrow> \<forall>x \<in> set (take m xs). P x"
proof (induction xs arbitrary: m)
  case Nil
  then show ?case by simp
next
  case (Cons x xs)
  then show ?case by (cases m) (auto split: if_splits)
qed

lemma matchAt_sound:
  assumes "matchAt s = Some (w, g)"
  shows "\<exists>post. s = js ''value[\"'' @ g @ js ''\"]'' @ post
           \<and> g \<noteq> [] \<and> (\<forall>c \<in> set g. \<not> isLineTerminator c)"
proof -
  let ?rest = "drop 7 s"
  let ?n = "length (takeWhile (\<lambda>c. \<not> isLineTerminator c) ?rest)"
  from assms have p: "prefix (js ''value[\"'') s" and g: "groupAt ?rest ?n = Some g"
    by (auto simp: matchAt_def Let_def split: if_splits option.splits)
  from p have s: "s = js ''value[\"'' @ ?rest"
    by (auto simp: prefix_def)
  from groupAt_sound [OF g] obtain m where m: "1 \<le> m" "m \<le> ?n" "g = take m ?rest"
    "prefix (js ''\"]'') (drop m ?rest)" by blast
  from m(4) obtain post where post: "drop m ?rest = js ''\"]'' @ post"
    by (auto simp: prefix_def)
  have "?rest = take m ?rest @ drop m ?rest"
    by (rule append_take_drop_id [symmetric])
  with m(3) post have rest: "?rest = g @ js ''\"]'' @ post" by metis
  from m(2) have "m \<le> length ?rest"
    using length_takeWhile_le [of "\<lambda>c. \<not> isLineTerminator c" ?rest] by linarith
  with m(1) m(3) have "g \<noteq> []" by auto
  moreover from m(2) m(3) have "\<forall>c \<in> set g. \<not> isLineTerminator c"
    using take_takeWhile [of m "\<lambda>c. \<not> isLineTerminator c" ?rest] by simp
  moreover from s rest have "s = js ''value[\"'' @ g @ js ''\"]'' @ post" by simp
  ultimately show ?thesis by blast
qed

lemma regexMatch_sound: "regexMatch s = Some m \<Longrightarrow> containsFieldNameEncoding s"
proof (induction s)
  case Nil
  then show ?case by (simp add: matchAt_def js_def)
next
  case (Cons c cs)
  show ?case
  proof (cases "matchAt (c # cs)")
    case None
    with Cons have "containsFieldNameEncoding cs" by simp
    then obtain pre g post where "cs = pre @ js ''value[\"'' @ g @ js ''\"]'' @ post"
      "g \<noteq> []" "\<forall>c \<in> set g. \<not> isLineTerminator c"
      unfolding containsFieldNameEncoding_def by blast
    then have "c # cs = (c # pre) @ js ''value[\"'' @ g @ js ''\"]'' @ post
        \<and> g \<noteq> [] \<and> (\<forall>c \<in> set g. \<not> isLineTerminator c)" by simp
    then show ?thesis unfolding containsFieldNameEncoding_def by blast
  next
    case (Some wg)
    obtain w g where "wg = (w, g)" by (cases wg)
    with Some matchAt_sound [of "c # cs" w g] show ?thesis
      unfolding containsFieldNameEncoding_def by (metis append_Nil)
  qed
qed

lemma matchAt_complete:
  assumes "g \<noteq> []" and "\<forall>c \<in> set g. \<not> isLineTerminator c"
  shows "matchAt (js ''value[\"'' @ g @ js ''\"]'' @ post) \<noteq> None"
proof -
  let ?rest = "g @ js ''\"]'' @ post"
  let ?n = "length (takeWhile (\<lambda>c. \<not> isLineTerminator c) ?rest)"
  have "takeWhile (\<lambda>c. \<not> isLineTerminator c) ?rest
        = g @ takeWhile (\<lambda>c. \<not> isLineTerminator c) (js ''\"]'' @ post)"
    using assms(2) by (simp add: takeWhile_append2)
  then have "length g \<le> ?n" by simp
  moreover from assms(1) have "1 \<le> length g" by (cases g) auto
  moreover have "prefix (js ''\"]'') (drop (length g) ?rest)" by simp
  ultimately have "groupAt ?rest ?n \<noteq> None"
    using groupAt_complete [of "length g" ?n ?rest] by blast
  then show ?thesis by (auto simp: matchAt_def Let_def)
qed

lemma regexMatch_complete: "containsFieldNameEncoding s \<Longrightarrow> regexMatch s \<noteq> None"
proof -
  assume "containsFieldNameEncoding s"
  then obtain pre g post where s: "s = pre @ js ''value[\"'' @ g @ js ''\"]'' @ post"
    and g: "g \<noteq> []" "\<forall>c \<in> set g. \<not> isLineTerminator c"
    unfolding containsFieldNameEncoding_def by blast
  have "regexMatch (pre @ js ''value[\"'' @ g @ js ''\"]'' @ post) \<noteq> None"
  proof (induction pre)
    case Nil
    from matchAt_complete [OF g, of post] obtain m
      where m: "matchAt (js ''value[\"'' @ g @ js ''\"]'' @ post) = Some m" by auto
    obtain c cs where c: "js ''value[\"'' @ g @ js ''\"]'' @ post = c # cs"
      by (simp add: js_def)
    with m show ?case by simp
  next
    case (Cons c pre)
    then show ?case by (auto split: option.splits)
  qed
  with s show ?thesis by simp
qed

lemma regexMatch_None_iff: "regexMatch s = None \<longleftrightarrow> \<not> containsFieldNameEncoding s"
  using regexMatch_sound [of s] regexMatch_complete [of s] by (cases "regexMatch s") auto

lemma matchAt_encoded:
  assumes "name \<noteq> []" and "\<forall>c \<in> set name. \<not> isLineTerminator c"
  shows "matchAt (js ''value[\"'' @ name @ js ''\"]'')
         = Some (js ''value[\"'' @ name @ js ''\"]'', name)"
proof -
  let ?rest = "name @ js ''\"]''"
  have tw: "takeWhile (\<lambda>c. \<not> isLineTerminator c) ?rest = ?rest"
    using assms(2) quote_bracket_not_terminator by (intro takeWhile_eq_all_conv [THEN iffD2]) auto
  have "groupAt ?rest (length ?rest) = Some (take (length name) ?rest)"
  proof (rule groupAt_greedy)
    from assms(1) show "1 \<le> length name" by (cases name) auto
    show "length name \<le> length ?rest" by simp
    show "prefix (js ''\"]'') (drop (length name) ?rest)" by simp
    show "\<forall>k. length name < k \<and> k \<le> length ?rest \<longrightarrow> \<not> prefix (js ''\"]'') (drop k ?rest)"
    proof (intro allI impI)
      fix k
      assume k: "length name < k \<and> k \<le> length ?rest"
      then have "length (drop k ?rest) < length (js ''\"]'')" by auto
      then show "\<not> prefix (js ''\"]'') (drop k ?rest)"
        using prefix_length_le by fastforce
    qed
  qed
  then have "groupAt ?rest (length (takeWhile (\<lambda>c. \<not> isLineTerminator c) ?rest)) = Some name"
    by (simp add: tw)
  then show ?thesis by (simp add: matchAt_def)
qed

lemma parse_encoded:
  assumes "name \<noteq> []" and "\<forall>c \<in> set name. \<not> isLineTerminator c"
  shows "parseResourceMapperFieldName (js ''value[\"'' @ name @ js ''\"]'') = name"
proof -
  obtain c cs where c: "js ''value[\"'' @ name @ js ''\"]'' = c # cs"
    by (simp add: js_def)
  have "regexMatch (c # cs) = Some (c # cs, name)"
    using matchAt_encoded [OF assms] unfolding c by simp
  then show ?thesis unfolding c by (simp add: parseResourceMapperFieldName_def)
qed

text \<open>
  C10, amended: for every non-empty field name with no double quote and no line
  terminator, \<open>parseResourceMapperFieldName\<close> of \<^verbatim>\<open>value["\<close>, the name and \<^verbatim>\<open>"]\<close> is
  the name; and a string that contains no substring matching \<^verbatim>\<open>value["..."]\<close> is returned
  unchanged.
\<close>

theorem parseResourceMapperFieldName_inverts:
  "(name \<noteq> [] \<and> 0x22 \<notin> set name \<and> (\<forall>c \<in> set name. \<not> isLineTerminator c)
      \<longrightarrow> parseResourceMapperFieldName (js ''value[\"'' @ name @ js ''\"]'') = name)
   \<and> (\<not> containsFieldNameEncoding s \<longrightarrow> parseResourceMapperFieldName s = s)"
  using parse_encoded [of name] regexMatch_None_iff [of s]
  by (auto simp: parseResourceMapperFieldName_def)

lemma plain_name_no_match: "regexMatch (js ''email'') = None"
  by (simp add: js_def matchAt_def)

theorem parseResourceMapperFieldName_inverts_witness:
  "parseResourceMapperFieldName (js ''value[\"'' @ js ''email'' @ js ''\"]'') = js ''email''
   \<and> \<not> containsFieldNameEncoding (js ''email'')
   \<and> parseResourceMapperFieldName (js ''email'') = js ''email''"
proof -
  have n: "\<not> containsFieldNameEncoding (js ''email'')"
    using plain_name_no_match regexMatch_None_iff by blast
  have h: "js ''email'' \<noteq> [] \<and> 0x22 \<notin> set (js ''email'')
      \<and> (\<forall>c \<in> set (js ''email''). \<not> isLineTerminator c)"
    by (simp add: js_def isLineTerminator_def)
  from parseResourceMapperFieldName_inverts [of "js ''email''" "js ''email''"] n h
  show ?thesis by blast
qed

text \<open>
  C10 as stated fails at the name that is one line feed: the dot of the regular
  expression does not match it, so there is no match and the input is returned.
\<close>

theorem parseResourceMapperFieldName_line_terminator:
  "[0x0A] \<noteq> [] \<and> 0x22 \<notin> set [0x0A :: 16 word]
   \<and> parseResourceMapperFieldName (js ''value[\"'' @ [0x0A] @ js ''\"]'') \<noteq> [0x0A]"
  by (simp add: parseResourceMapperFieldName_def matchAt_def js_def isLineTerminator_def)

section \<open>Properties of the exported functions as a whole\<close>

subsection \<open>Reads and writes of the state\<close>
















subsection \<open>The example states evaluated\<close>













subsection \<open>The exported functions and the state\<close>





end
